theory Spec2Isabelle
  imports Main
begin

section \<open>Values of the slot system\<close>

text \<open>
  \<^verbatim>\<open>ReactNode\<close> is the host framework's type of renderable content. The library never looks
  inside a node: it stores it, compares it with \<^verbatim>\<open>===\<close> and hands it back. Primitives are
  compared by value, objects (elements, arrays, portals) by reference, so an object is
  represented by its identity alone. Numbers are kept as integers plus \<open>NaN\<close>, the one
  primitive that is not \<^verbatim>\<open>===\<close> to itself; negative zero is left out.
\<close>

datatype ReactNode =
    Undefined
  | Null
  | Boolean bool
  | Text string
  | Number int
  | NaN
  | Element nat

text \<open>
  \<^verbatim>\<open>type SlotChildren = ReactNode | SlotRenderPropFunction\<close> (SlotContext.tsx, line 15).
  A function is an object: \<open>RenderProp k\<close> is the function object with identity \<open>k\<close>; what
  it computes is kept in the function table of the \<open>world\<close> below.
\<close>

datatype SlotChildren =
    Node ReactNode
  | RenderProp nat

datatype error =
    Error string
  | TypeError string

text \<open>
  \<^verbatim>\<open>type SlotRenderPropFunction = (defaultChildren: ReactNode) => ReactNode\<close>; a call of a
  JavaScript function may also throw.
\<close>

type_synonym SlotRenderPropFunction = "ReactNode \<Rightarrow> error + ReactNode"

section \<open>Plain objects used as the slot mapping\<close>

text \<open>
  \<^verbatim>\<open>Record<string, SlotChildren>\<close> is a plain object: created by the literal \<^verbatim>\<open>{}\<close>, by an
  object spread or by a rest pattern, so its prototype is always \<^verbatim>\<open>Object.prototype\<close>. The
  program never mutates such an object, it only builds new ones; an object is therefore
  its identity together with its own properties.
\<close>

record JSObject =
  ident :: nat
  props :: "string \<rightharpoonup> SlotChildren"

text \<open>The property names every plain object inherits from \<^verbatim>\<open>Object.prototype\<close>.\<close>

definition ObjectPrototype_keys :: "string list" where
  "ObjectPrototype_keys =
     [''constructor'', ''toString'', ''toLocaleString'', ''valueOf'', ''hasOwnProperty'',
      ''isPrototypeOf'', ''propertyIsEnumerable'', ''__proto__'', ''__defineGetter__'',
      ''__defineSetter__'', ''__lookupGetter__'', ''__lookupSetter__'']"

text \<open>
  The result of a property read \<^verbatim>\<open>obj[name]\<close>: a stored slot value, or the built-in that
  \<^verbatim>\<open>Object.prototype\<close> holds under that name. A name found nowhere reads as \<^verbatim>\<open>undefined\<close>.
\<close>

datatype property =
    Stored SlotChildren
  | Inherited string

definition js_get :: "JSObject \<Rightarrow> string \<Rightarrow> property" where
  "js_get obj name =
     (case props obj name of
        Some v \<Rightarrow> Stored v
      | None \<Rightarrow> if name \<in> set ObjectPrototype_keys then Inherited name
                else Stored (Node Undefined))"

text \<open>The operator \<^verbatim>\<open>name in obj\<close>: own properties and the prototype chain.\<close>

definition js_in :: "string \<Rightarrow> JSObject \<Rightarrow> bool" where
  "js_in name obj =
     (case props obj name of
        Some v \<Rightarrow> True
      | None \<Rightarrow> name \<in> set ObjectPrototype_keys)"

text \<open>
  \<^verbatim>\<open>prev[name] === children\<close>. The callers of this library pass slot content, never one of
  the built-ins of \<^verbatim>\<open>Object.prototype\<close>, so an inherited value equals no \<open>children\<close>.
\<close>

primrec strict_equals :: "property \<Rightarrow> SlotChildren \<Rightarrow> bool" where
  "strict_equals (Stored v) children = (v = children \<and> children \<noteq> Node NaN)"
| "strict_equals (Inherited k) children = False"

text \<open>\<^verbatim>\<open>Object.is\<close>, with which the host framework compares hook dependencies.\<close>

definition Object_is :: "SlotChildren \<Rightarrow> SlotChildren \<Rightarrow> bool" where
  "Object_is a b = (a = b)"

section \<open>SlotContext.tsx\<close>

text \<open>
  The part of the running program the library reads and writes: the state cell of
  \<^verbatim>\<open>useState\<close> in \<^verbatim>\<open>SlotProvider\<close>, the number of object identities handed out so far, and
  what each function object computes.
\<close>

record world =
  cell :: JSObject
  allocated :: nat
  fn_table :: "nat \<Rightarrow> SlotRenderPropFunction"

text \<open>
  \<^verbatim>\<open>type SlotContextType\<close> (lines 21-28): exactly three members.
\<close>

record SlotContextType =
  slotValues :: JSObject
  setSlotValue :: "string \<Rightarrow> SlotChildren \<Rightarrow> world \<Rightarrow> world"
  removeSlotValue :: "string \<Rightarrow> world \<Rightarrow> world"

text \<open>\<^verbatim>\<open>createContext<SlotContextType | undefined>(undefined)\<close>\<close>

type_synonym SlotContext = "SlotContextType option"

text \<open>
  \<^verbatim>\<open>useState<Record<string, SlotChildren>>({})\<close> on the first render of a provider: a new
  empty object.
\<close>

definition establish :: "nat \<Rightarrow> (nat \<Rightarrow> SlotRenderPropFunction) \<Rightarrow> world" where
  "establish k fns =
     \<lparr>cell = \<lparr>ident = k, props = Map.empty\<rparr>, allocated = Suc k, fn_table = fns\<rparr>"

text \<open>
  \<^verbatim>\<open>setSlotValue\<close> (lines 50-60). \<^verbatim>\<open>setSlotValues(updater)\<close> replaces the state by
  \<^verbatim>\<open>updater(prev)\<close>; the spread \<^verbatim>\<open>{...prev, [name]: children}\<close> is a new object with the
  own properties of \<open>prev\<close> and \<open>name\<close> set.
\<close>

definition SlotProvider_setSlotValue :: "string \<Rightarrow> SlotChildren \<Rightarrow> world \<Rightarrow> world" where
  "SlotProvider_setSlotValue name children w =
     (let prev = cell w in
      if strict_equals (js_get prev name) children then w
      else w\<lparr>cell := \<lparr>ident = allocated w, props = (props prev)(name \<mapsto> children)\<rparr>,
             allocated := Suc (allocated w)\<rparr>)"

text \<open>
  \<^verbatim>\<open>removeSlotValue\<close> (lines 63-71). The rest pattern \<^verbatim>\<open>{ [name]: _, ...rest }\<close> makes \<open>rest\<close>
  a new object with the own properties of \<open>prev\<close> but \<open>name\<close>.
\<close>

definition SlotProvider_removeSlotValue :: "string \<Rightarrow> world \<Rightarrow> world" where
  "SlotProvider_removeSlotValue name w =
     (let prev = cell w in
      if \<not> js_in name prev then w
      else w\<lparr>cell := \<lparr>ident = allocated w, props = (props prev)(name := None)\<rparr>,
             allocated := Suc (allocated w)\<rparr>)"

text \<open>
  \<^verbatim>\<open>SlotProvider\<close> (lines 73-83): the context value of one render, an object literal with
  the three members \<^verbatim>\<open>slotValues, setSlotValue, removeSlotValue\<close>.
\<close>

definition SlotProvider :: "world \<Rightarrow> SlotContextType" where
  "SlotProvider w =
     \<lparr>slotValues = cell w,
      setSlotValue = SlotProvider_setSlotValue,
      removeSlotValue = SlotProvider_removeSlotValue\<rparr>"

text \<open>\<^verbatim>\<open>useSlotContext\<close> (lines 92-98).\<close>

definition useSlotContext :: "SlotContext \<Rightarrow> error + SlotContextType" where
  "useSlotContext context =
     (case context of
        None \<Rightarrow> Inl (Error ''useSlotContext must be used within a SlotProvider'')
      | Some c \<Rightarrow> Inr c)"

section \<open>Slot.tsx\<close>

primrec isRenderProp :: "SlotChildren \<Rightarrow> bool" where
  "isRenderProp (Node n) = False"
| "isRenderProp (RenderProp k) = True"

text \<open>A call \<^verbatim>\<open>children(defaultChildren)\<close> of a slot value.\<close>

primrec invoke :: "(nat \<Rightarrow> SlotRenderPropFunction) \<Rightarrow> SlotChildren \<Rightarrow> SlotRenderPropFunction" where
  "invoke fns (Node n) defaultChildren = Inl (TypeError ''children is not a function'')"
| "invoke fns (RenderProp k) defaultChildren = fns k defaultChildren"

text \<open>
  The factory of \<^verbatim>\<open>useMemo\<close> (lines 24-29): a render prop is wrapped in a new arrow function
  \<^verbatim>\<open>(defaultChildren) => children(defaultChildren)\<close>, anything else is returned as it is.
\<close>

definition memoizedContent_factory :: "SlotChildren \<Rightarrow> world \<Rightarrow> SlotChildren \<times> world" where
  "memoizedContent_factory children w =
     (if isRenderProp children then
        (RenderProp (allocated w),
         w\<lparr>allocated := Suc (allocated w),
           fn_table := (fn_table w)(allocated w := invoke (fn_table w) children)\<rparr>)
      else (children, w))"

text \<open>
  What the hooks of one mounted \<^verbatim>\<open>Slot\<close> remember between renders: the dependency and the
  value of \<^verbatim>\<open>useMemo\<close>, the dependency \<open>name\<close> of \<^verbatim>\<open>useLayoutEffect\<close> (its other dependency
  is the memoized value), and the cleanup function the last effect returned.
\<close>

record SlotHooks =
  dep_children :: SlotChildren
  memoizedContent :: SlotChildren
  dep_name :: string
  cleanup :: "world \<Rightarrow> world"

text \<open>
  The layout effect (lines 32-39): \<^verbatim>\<open>setSlotValue(name, memoizedContent)\<close>, returning the
  cleanup \<^verbatim>\<open>if (removeSlotValue) removeSlotValue(name)\<close>. The member \<open>removeSlotValue\<close> of a
  context value is a function, hence truthy.
\<close>

definition Slot_effect :: "SlotContextType \<Rightarrow> string \<Rightarrow> SlotChildren \<Rightarrow> world \<Rightarrow> (world \<Rightarrow> world) \<times> world" where
  "Slot_effect c name content w = (removeSlotValue c name, setSlotValue c name content w)"

text \<open>Mounting a \<^verbatim>\<open>Slot\<close>: the first render, then the layout effect at commit.\<close>

definition Slot_mount :: "SlotContext \<Rightarrow> string \<Rightarrow> SlotChildren \<Rightarrow> world \<Rightarrow> error + SlotHooks \<times> world" where
  "Slot_mount context name children w =
     (case useSlotContext context of
        Inl e \<Rightarrow> Inl e
      | Inr c \<Rightarrow>
          let (content, w1) = memoizedContent_factory children w;
              (undo, w2) = Slot_effect c name content w1
          in Inr (\<lparr>dep_children = children, memoizedContent = content,
                   dep_name = name, cleanup = undo\<rparr>, w2))"

text \<open>
  A later render with new props. \<^verbatim>\<open>useMemo\<close> keeps its value while \<open>children\<close> is the same
  reference. When one of \<^verbatim>\<open>[name, memoizedContent]\<close> changed, the commit runs the cleanup of
  the last effect and then the effect again.
\<close>

definition Slot_update :: "SlotContext \<Rightarrow> SlotHooks \<Rightarrow> string \<Rightarrow> SlotChildren \<Rightarrow> world \<Rightarrow> error + SlotHooks \<times> world" where
  "Slot_update context h name children w =
     (case useSlotContext context of
        Inl e \<Rightarrow> Inl e
      | Inr c \<Rightarrow>
          let (content, w1) =
                (if Object_is children (dep_children h) then (memoizedContent h, w)
                 else memoizedContent_factory children w)
          in if name = dep_name h \<and> Object_is content (memoizedContent h)
             then Inr (h\<lparr>dep_children := children\<rparr>, w1)
             else let (undo, w2) = Slot_effect c name content (cleanup h w1)
                  in Inr (\<lparr>dep_children = children, memoizedContent = content,
                           dep_name = name, cleanup = undo\<rparr>, w2))"

text \<open>Unmounting a \<^verbatim>\<open>Slot\<close> runs the cleanup of its last effect.\<close>

definition Slot_unmount :: "SlotHooks \<Rightarrow> world \<Rightarrow> world" where
  "Slot_unmount h w = cleanup h w"


section \<open>TemplateSlot.tsx\<close>

text \<open>\<^verbatim>\<open>isRenderProp\<close> of TemplateSlot.tsx, applied to what \<^verbatim>\<open>slotValues[name]\<close> read.\<close>

primrec TemplateSlot_isRenderProp :: "property \<Rightarrow> bool" where
  "TemplateSlot_isRenderProp (Stored v) = isRenderProp v"
| "TemplateSlot_isRenderProp (Inherited k) = (k \<noteq> ''__proto__'')"

text \<open>
  What a \<^verbatim>\<open>TemplateSlot\<close> returns: the fragment \<^verbatim>\<open><>{x}</>\<close> around a value, or, when the
  value read was a built-in function of \<^verbatim>\<open>Object.prototype\<close>, whatever the call of that
  built-in on the default content completes with (kept symbolic).
\<close>

datatype rendered =
    Fragment property
  | NativeCall string ReactNode

primrec call_slotContent :: "(nat \<Rightarrow> SlotRenderPropFunction) \<Rightarrow> property \<Rightarrow> ReactNode \<Rightarrow> error + rendered" where
  "call_slotContent fns (Stored v) children =
     (case invoke fns v children of
        Inl e \<Rightarrow> Inl e
      | Inr r \<Rightarrow> Inr (Fragment (Stored (Node r))))"
| "call_slotContent fns (Inherited k) children =
     (if k = ''__proto__'' then Inl (TypeError ''slotContent is not a function'')
      else Inr (NativeCall k children))"

text \<open>
  The destructuring \<^verbatim>\<open>const { slotValues, hasSlot } = useSlotContext()\<close> (line 25) reads the
  property \<open>hasSlot\<close> of the context value. The object built by \<^verbatim>\<open>SlotProvider\<close> has the
  members of \<open>SlotContextType\<close> and no other, and \<^verbatim>\<open>Object.prototype\<close> has no \<open>hasSlot\<close>:
  the read gives \<^verbatim>\<open>undefined\<close>, here \<open>None\<close>.
\<close>

definition hasSlot :: "SlotContextType \<Rightarrow> (string \<Rightarrow> bool) option" where
  "hasSlot c = None"

text \<open>
  \<^verbatim>\<open>TemplateSlot\<close> (lines 21-40). Calling \<^verbatim>\<open>undefined\<close> throws a \<^verbatim>\<open>TypeError\<close>.
\<close>

definition TemplateSlot :: "SlotContext \<Rightarrow> (nat \<Rightarrow> SlotRenderPropFunction) \<Rightarrow> string \<Rightarrow> ReactNode \<Rightarrow> error + rendered" where
  "TemplateSlot context fns name children =
     (case useSlotContext context of
        Inl e \<Rightarrow> Inl e
      | Inr c \<Rightarrow>
          let slotContent = js_get (slotValues c) name in
          (case hasSlot c of
             None \<Rightarrow> Inl (TypeError ''hasSlot is not a function'')
           | Some has \<Rightarrow>
               if \<not> has name then Inr (Fragment (Stored (Node children)))
               else if TemplateSlot_isRenderProp slotContent
                    then call_slotContent fns slotContent children
                    else Inr (Fragment slotContent)))"

section \<open>Concrete scenarios\<close>

text \<open>The transform \<^verbatim>\<open>x => "[" + x + "]"\<close> on text, used as the meaning of every function object.\<close>

definition bracket :: SlotRenderPropFunction where
  "bracket d = (case d of Text s \<Rightarrow> Inr (Text (''['' @ s @ '']'')) | _ \<Rightarrow> Inr d)"

text \<open>A provider that has just been mounted.\<close>

definition fresh_scope :: world where
  "fresh_scope = establish 0 (\<lambda>k. bracket)"

text \<open>
  \<^verbatim>\<open><Slot name="main">B</Slot>\<close> mounted in the fresh provider, then
  \<^verbatim>\<open><Slot name="main">C</Slot>\<close> mounted beside it, then the first one unmounted.
\<close>

definition writer_B :: SlotHooks where
  "writer_B = \<lparr>dep_children = Node (Text ''B''), memoizedContent = Node (Text ''B''),
               dep_name = ''main'', cleanup = SlotProvider_removeSlotValue ''main''\<rparr>"

definition world_B :: world where
  "world_B = \<lparr>cell = \<lparr>ident = 1, props = [''main'' \<mapsto> Node (Text ''B'')]\<rparr>,
              allocated = 2, fn_table = (\<lambda>k. bracket)\<rparr>"

definition writer_C :: SlotHooks where
  "writer_C = \<lparr>dep_children = Node (Text ''C''), memoizedContent = Node (Text ''C''),
               dep_name = ''main'', cleanup = SlotProvider_removeSlotValue ''main''\<rparr>"

definition world_BC :: world where
  "world_BC = \<lparr>cell = \<lparr>ident = 2, props = [''main'' \<mapsto> Node (Text ''C'')]\<rparr>,
               allocated = 3, fn_table = (\<lambda>k. bracket)\<rparr>"

definition world_B_unmounted :: world where
  "world_B_unmounted = \<lparr>cell = \<lparr>ident = 3, props = Map.empty\<rparr>,
              allocated = 4, fn_table = (\<lambda>k. bracket)\<rparr>"

text \<open>
  \<^verbatim>\<open><Slot name="main" />\<close>, its children omitted, mounted in the fresh provider and then
  rendered again as \<^verbatim>\<open><Slot name="footer" />\<close>.
\<close>

definition writer_omitted :: SlotHooks where
  "writer_omitted = \<lparr>dep_children = Node Undefined, memoizedContent = Node Undefined,
                     dep_name = ''main'', cleanup = SlotProvider_removeSlotValue ''main''\<rparr>"

definition writer_omitted_renamed :: SlotHooks where
  "writer_omitted_renamed =
     \<lparr>dep_children = Node Undefined, memoizedContent = Node Undefined,
      dep_name = ''footer'', cleanup = SlotProvider_removeSlotValue ''footer''\<rparr>"

text \<open>The state after \<^verbatim>\<open><Slot name="main">B</Slot>\<close> has been renamed to \<open>footer\<close>.\<close>

definition world_B_renamed :: world where
  "world_B_renamed = \<lparr>cell = \<lparr>ident = 3, props = [''footer'' \<mapsto> Node (Text ''B'')]\<rparr>,
                      allocated = 4, fn_table = (\<lambda>k. bracket)\<rparr>"

section \<open>Basic facts\<close>

lemmas scenario_defs =
  fresh_scope_def establish_def writer_B_def world_B_def writer_C_def world_BC_def world_B_unmounted_def
  writer_omitted_def writer_omitted_renamed_def world_B_renamed_def

lemmas provider_defs =
  SlotProvider_def SlotProvider_setSlotValue_def SlotProvider_removeSlotValue_def
  js_get_def js_in_def ObjectPrototype_keys_def

lemmas writer_defs =
  Slot_mount_def Slot_update_def Slot_unmount_def Slot_effect_def memoizedContent_factory_def
  useSlotContext_def Object_is_def

lemma TemplateSlot_in_scope:
  "TemplateSlot (Some c) fns name children = Inl (TypeError ''hasSlot is not a function'')"
  by (simp add: TemplateSlot_def useSlotContext_def hasSlot_def)

subsection \<open>The two updaters\<close>

lemma setSlotValue_same_reference:
  "strict_equals (js_get (cell w) n) v \<Longrightarrow> SlotProvider_setSlotValue n v w = w"
  by (simp add: SlotProvider_setSlotValue_def)

lemma setSlotValue_reads_back:
  "js_get (cell (SlotProvider_setSlotValue n v w)) n = Stored v"
  by (auto simp add: SlotProvider_setSlotValue_def Let_def js_get_def split: option.splits)

lemma setSlotValue_own:
  "v \<noteq> Node Undefined \<Longrightarrow> props (cell (SlotProvider_setSlotValue n v w)) n = Some v"
  by (auto simp add: SlotProvider_setSlotValue_def Let_def js_get_def
      split: option.splits if_splits)

lemma setSlotValue_other:
  "n \<noteq> m \<Longrightarrow> props (cell (SlotProvider_setSlotValue n v w)) m = props (cell w) m"
  by (simp add: SlotProvider_setSlotValue_def Let_def)

lemma setSlotValue_fn_table:
  "fn_table (SlotProvider_setSlotValue n v w) = fn_table w"
  by (simp add: SlotProvider_setSlotValue_def Let_def)

lemma removeSlotValue_not_in:
  "\<not> js_in n (cell w) \<Longrightarrow> SlotProvider_removeSlotValue n w = w"
  by (simp add: SlotProvider_removeSlotValue_def)

lemma removeSlotValue_never_set:
  assumes "props (cell w) n = None" and "n \<notin> set ObjectPrototype_keys"
  shows "SlotProvider_removeSlotValue n w = w"
  using assms by (intro removeSlotValue_not_in) (simp add: js_in_def)

lemma removeSlotValue_own:
  "props (cell (SlotProvider_removeSlotValue n w)) n = None"
  by (auto simp add: SlotProvider_removeSlotValue_def js_in_def Let_def split: option.splits)

lemma removeSlotValue_other:
  "n \<noteq> m \<Longrightarrow> props (cell (SlotProvider_removeSlotValue n w)) m = props (cell w) m"
  by (simp add: SlotProvider_removeSlotValue_def Let_def)

lemma removeSlotValue_fn_table:
  "fn_table (SlotProvider_removeSlotValue n w) = fn_table w"
  by (simp add: SlotProvider_removeSlotValue_def Let_def)

text \<open>
  Identities are handed out in increasing order, so a write that is not suppressed gives
  the state cell an object that did not exist before.
\<close>

lemma setSlotValue_new_object:
  assumes "ident (cell w) < allocated w" and "\<not> strict_equals (js_get (cell w) n) v"
  shows "ident (cell (SlotProvider_setSlotValue n v w)) \<noteq> ident (cell w)"
    and "ident (cell (SlotProvider_setSlotValue n v w)) < allocated (SlotProvider_setSlotValue n v w)"
  using assms by (simp_all add: SlotProvider_setSlotValue_def Let_def)

lemma removeSlotValue_new_object:
  assumes "ident (cell w) < allocated w" and "js_in n (cell w)"
  shows "ident (cell (SlotProvider_removeSlotValue n w)) \<noteq> ident (cell w)"
    and "ident (cell (SlotProvider_removeSlotValue n w)) < allocated (SlotProvider_removeSlotValue n w)"
  using assms by (simp_all add: SlotProvider_removeSlotValue_def Let_def)

subsection \<open>The hooks of a mounted Slot\<close>

lemma Slot_mount_in_scope:
  "\<exists>h w'. Slot_mount (Some c) n v w = Inr (h, w')"
  by (simp add: Slot_mount_def useSlotContext_def Let_def split: prod.splits)

lemma Slot_update_in_scope:
  "\<exists>h' w'. Slot_update (Some c) h n v w = Inr (h', w')"
  by (simp add: Slot_update_def useSlotContext_def Let_def split: prod.splits)

lemma Slot_mount_hooks:
  assumes "Slot_mount (Some (SlotProvider w)) n v w0 = Inr (h, w')"
  shows "dep_children h = v" and "dep_name h = n"
    and "cleanup h = SlotProvider_removeSlotValue n"
  using assms
  by (auto simp add: Slot_mount_def useSlotContext_def Slot_effect_def SlotProvider_def Let_def
      split: prod.splits)

lemma Slot_update_renamed:
  assumes "Slot_update (Some (SlotProvider w)) h n' (dep_children h) w0 = Inr (h', w')"
    and "dep_name h \<noteq> n'"
  shows "w' = SlotProvider_setSlotValue n' (memoizedContent h) (cleanup h w0)"
    and "memoizedContent h' = memoizedContent h"
  using assms
  by (auto simp add: Slot_update_def useSlotContext_def Slot_effect_def SlotProvider_def
      Object_is_def Let_def split: prod.splits)



lemma scenario_rename_B:
  "map_sum id snd
     (Slot_update (Some (SlotProvider world_B)) writer_B ''footer'' (Node (Text ''B'')) world_B)
   = Inr world_B_renamed"
  by (simp add: scenario_defs writer_defs provider_defs)







section \<open>The resolver inside a scope\<close>

text \<open>
  C1 (the code departs from the claim). The claim: for a name with no entry in the
  mapping, a \<^verbatim>\<open>TemplateSlot\<close> rendered inside a provider emits its default children. In the
  fresh provider \<open>main\<close> has no entry, and a \<^verbatim>\<open>TemplateSlot\<close> for \<open>main\<close> with default
  \<open>A\<close> emits nothing: it throws the \<^verbatim>\<open>TypeError\<close> of calling the missing member \<open>hasSlot\<close>.
\<close>

theorem C1_unset_name_raises:
  "props (cell fresh_scope) ''main'' = None
   \<and> TemplateSlot (Some (SlotProvider fresh_scope)) (fn_table fresh_scope) ''main'' (Text ''A'')
       = Inl (TypeError ''hasSlot is not a function'')"
  by (simp add: TemplateSlot_in_scope scenario_defs)

text \<open>
  C2 (the code departs from the claim). The claim: inside a provider no operation raises,
  the error of \<^verbatim>\<open>useSlotContext\<close> being the only one of the system. Rendering
  \<^verbatim>\<open><TemplateSlot name="nonexistent">\<close> with an element as default inside a provider raises
  a \<^verbatim>\<open>TypeError\<close>.
\<close>

theorem C2_resolver_raises_in_scope:
  "TemplateSlot (Some (SlotProvider fresh_scope)) (fn_table fresh_scope) ''nonexistent'' (Element 1)
     = Inl (TypeError ''hasSlot is not a function'')"
  by (rule TemplateSlot_in_scope)

text \<open>
  C3 (the code departs from the claim). The claim: after \<open>set(n, f)\<close> with a function \<open>f\<close>,
  the \<^verbatim>\<open>TemplateSlot\<close> for \<open>n\<close> with default \<open>d\<close> emits \<open>f(d)\<close>. With the function object 7
  (which maps \<open>A\<close> to \<open>[A]\<close>) registered under \<open>main\<close>, the \<^verbatim>\<open>TemplateSlot\<close> for \<open>main\<close> with
  default \<open>A\<close> throws instead of emitting \<open>[A]\<close>.
\<close>

theorem C3_transform_raises:
  "props (cell (setSlotValue (SlotProvider fresh_scope) ''main'' (RenderProp 7) fresh_scope)) ''main''
     = Some (RenderProp 7)
   \<and> fn_table (setSlotValue (SlotProvider fresh_scope) ''main'' (RenderProp 7) fresh_scope) 7 (Text ''A'')
     = Inr (Text ''[A]'')
   \<and> TemplateSlot
        (Some (SlotProvider (setSlotValue (SlotProvider fresh_scope) ''main'' (RenderProp 7) fresh_scope)))
        (fn_table (setSlotValue (SlotProvider fresh_scope) ''main'' (RenderProp 7) fresh_scope))
        ''main'' (Text ''A'')
     = Inl (TypeError ''hasSlot is not a function'')"
  by (simp add: TemplateSlot_in_scope scenario_defs provider_defs bracket_def)

text \<open>
  C4 (the code departs from the claim). The claim: after \<open>set(n, v)\<close> with \<open>v\<close> not a
  function, the \<^verbatim>\<open>TemplateSlot\<close> for \<open>n\<close> emits \<open>v\<close> whatever the default. With \<^verbatim>\<open>null\<close>
  registered under \<open>main\<close>, the \<^verbatim>\<open>TemplateSlot\<close> for \<open>main\<close> with default \<open>A\<close> throws instead
  of emitting \<^verbatim>\<open>null\<close>.
\<close>

theorem C4_override_raises:
  "props (cell (setSlotValue (SlotProvider fresh_scope) ''main'' (Node Null) fresh_scope)) ''main''
     = Some (Node Null)
   \<and> TemplateSlot
        (Some (SlotProvider (setSlotValue (SlotProvider fresh_scope) ''main'' (Node Null) fresh_scope)))
        (fn_table (setSlotValue (SlotProvider fresh_scope) ''main'' (Node Null) fresh_scope))
        ''main'' (Text ''A'')
     = Inl (TypeError ''hasSlot is not a function'')"
  by (simp add: TemplateSlot_in_scope scenario_defs provider_defs)

section \<open>Writes to the mapping\<close>

text \<open>
  C5 (the code departs from the claim). The claim: \<open>set(n, v)\<close> on a name with no entry
  leaves \<open>n\<close> present and mapped to \<open>v\<close>, also for \<^verbatim>\<open>undefined\<close>. In the fresh provider
  \<^verbatim>\<open>setSlotValue("undefinedSlot", undefined)\<close> changes nothing: the name still has no entry.
\<close>

theorem C5_set_undefined_is_dropped:
  "props (cell fresh_scope) ''undefinedSlot'' = None
   \<and> setSlotValue (SlotProvider fresh_scope) ''undefinedSlot'' (Node Undefined) fresh_scope
       = fresh_scope"
  by (simp add: scenario_defs provider_defs)

text \<open>
  C6 (the code departs from the claim). The claim: a write that changes nothing keeps the
  very same mapping object, for \<open>set\<close> of the value already there and for \<open>remove\<close> of an
  absent name. In the fresh provider \<open>toString\<close> has no entry, yet
  \<^verbatim>\<open>removeSlotValue("toString")\<close> puts a new object into the state cell.
\<close>

theorem C6_remove_inherited_name_new_object:
  "props (cell fresh_scope) ''toString'' = None
   \<and> ident (cell fresh_scope) = 0
   \<and> ident (cell (removeSlotValue (SlotProvider fresh_scope) ''toString'' fresh_scope)) = 1
   \<and> props (cell (removeSlotValue (SlotProvider fresh_scope) ''toString'' fresh_scope))
       = props (cell fresh_scope)"
  by (simp add: scenario_defs provider_defs)

text \<open>
  C8. Writing or removing the name \<open>n\<close> leaves every other name \<open>m\<close> as it was: its own
  entry, what a read of it gives, whether \<open>m in mapping\<close> holds, and what the stored
  function objects compute.
\<close>

theorem C8_other_names_untouched:
  assumes "n \<noteq> m"
  shows "props (cell (setSlotValue (SlotProvider w) n v w)) m = props (cell w) m
     \<and> js_get (cell (setSlotValue (SlotProvider w) n v w)) m = js_get (cell w) m
     \<and> js_in m (cell (setSlotValue (SlotProvider w) n v w)) = js_in m (cell w)
     \<and> fn_table (setSlotValue (SlotProvider w) n v w) = fn_table w
     \<and> props (cell (removeSlotValue (SlotProvider w) n w)) m = props (cell w) m
     \<and> js_get (cell (removeSlotValue (SlotProvider w) n w)) m = js_get (cell w) m
     \<and> js_in m (cell (removeSlotValue (SlotProvider w) n w)) = js_in m (cell w)
     \<and> fn_table (removeSlotValue (SlotProvider w) n w) = fn_table w"
proof -
  have s: "props (cell (SlotProvider_setSlotValue n v w)) m = props (cell w) m"
    using assms by (rule setSlotValue_other)
  have r: "props (cell (SlotProvider_removeSlotValue n w)) m = props (cell w) m"
    using assms by (rule removeSlotValue_other)
  show ?thesis
    by (simp add: SlotProvider_def js_get_def js_in_def s r
        setSlotValue_fn_table removeSlotValue_fn_table)
qed

theorem C8_other_names_untouched_witness:
  "''footer'' \<noteq> ''main''
   \<and> props (cell (setSlotValue (SlotProvider world_B) ''footer'' (Node Null) world_B)) ''main''
       = Some (Node (Text ''B''))
   \<and> props (cell (removeSlotValue (SlotProvider world_B) ''footer'' world_B)) ''main''
       = Some (Node (Text ''B''))"
  using C8_other_names_untouched [of "''footer''" "''main''" world_B "Node Null"]
  by (simp add: world_B_def)

section \<open>The lifetime of a writer\<close>




text \<open>
  C10 (the code departs from the claim). The claim: when the name of a mounted \<^verbatim>\<open>Slot\<close>
  changes from \<open>n\<close> to \<open>n'\<close> and its children stay the same, \<open>n\<close> is absent afterwards and
  \<open>n'\<close> maps to the content of the \<^verbatim>\<open>Slot\<close>. For \<^verbatim>\<open><Slot name="main" />\<close>, its children
  omitted, renamed to \<open>footer\<close> in the fresh provider: the mount, the cleanup and the new
  effect all leave the mapping as it was, so \<open>footer\<close> has no entry after the update.
\<close>

theorem C10_rename_omitted_children_registers_nothing:
  "Slot_mount (Some (SlotProvider fresh_scope)) ''main'' (Node Undefined) fresh_scope
     = Inr (writer_omitted, fresh_scope)
   \<and> Slot_update (Some (SlotProvider fresh_scope)) writer_omitted ''footer'' (Node Undefined)
        fresh_scope
     = Inr (writer_omitted_renamed, fresh_scope)
   \<and> props (cell fresh_scope) ''footer'' = None"
  by (simp add: scenario_defs writer_defs provider_defs)

text \<open>
  What the rename does for every content: the update succeeds and keeps the memoized
  content; it first removes \<open>n\<close> and then sets \<open>n'\<close>; afterwards \<open>n\<close> has no entry, and \<open>n'\<close>
  has the memoized content as its entry whenever that content is not \<^verbatim>\<open>undefined\<close>.
\<close>

lemma Slot_rename_moves_defined_content:
  assumes "n \<noteq> n'"
  shows
    "(case Slot_mount (Some (SlotProvider w0)) n children w0 of
        Inl e \<Rightarrow> False
      | Inr (h, w1) \<Rightarrow>
          (case Slot_update (Some (SlotProvider w)) h n' children w of
             Inl e \<Rightarrow> False
           | Inr (h', w') \<Rightarrow>
               memoizedContent h' = memoizedContent h
               \<and> w' = setSlotValue (SlotProvider w) n' (memoizedContent h)
                        (removeSlotValue (SlotProvider w) n w)
               \<and> props (cell w') n = None
               \<and> js_get (cell w') n' = Stored (memoizedContent h)
               \<and> (memoizedContent h \<noteq> Node Undefined
                    \<longrightarrow> props (cell w') n' = Some (memoizedContent h))))"
proof -
  obtain h w1 where m: "Slot_mount (Some (SlotProvider w0)) n children w0 = Inr (h, w1)"
    using Slot_mount_in_scope by blast
  note hooks = Slot_mount_hooks [OF m]
  obtain h' w' where u: "Slot_update (Some (SlotProvider w)) h n' children w = Inr (h', w')"
    using Slot_update_in_scope by blast
  from u hooks assms
  have w': "w' = SlotProvider_setSlotValue n' (memoizedContent h) (SlotProvider_removeSlotValue n w)"
    and kept: "memoizedContent h' = memoizedContent h"
    using Slot_update_renamed [of w h n' w h' w'] by simp_all
  from assms have "props (cell w') n = props (cell (SlotProvider_removeSlotValue n w)) n"
    unfolding w' by (simp add: setSlotValue_other)
  then have gone: "props (cell w') n = None"
    by (simp add: removeSlotValue_own)
  have reads: "js_get (cell w') n' = Stored (memoizedContent h)"
    unfolding w' by (rule setSlotValue_reads_back)
  have own: "memoizedContent h \<noteq> Node Undefined
      \<longrightarrow> props (cell w') n' = Some (memoizedContent h)"
    unfolding w' by (simp add: setSlotValue_own)
  have order: "w' = setSlotValue (SlotProvider w) n' (memoizedContent h)
      (removeSlotValue (SlotProvider w) n w)"
    unfolding w' by (simp add: SlotProvider_def)
  from m u kept order gone reads own show ?thesis by simp
qed

section \<open>Outside a scope\<close>

text \<open>
  C9. With no provider above, every way into the library raises the error of
  \<^verbatim>\<open>useSlotContext\<close>, whose message says that the hook must be used within a
  \<^verbatim>\<open>SlotProvider\<close>: the hook itself (the way to \<open>slotValues\<close>, \<open>setSlotValue\<close> and
  \<open>removeSlotValue\<close>), a \<^verbatim>\<open>Slot\<close> on its first and on a later render, and a \<^verbatim>\<open>TemplateSlot\<close>.
\<close>

theorem C9_outside_scope_raises:
  "useSlotContext None = Inl (Error ''useSlotContext must be used within a SlotProvider'')
   \<and> Slot_mount None name children w
       = Inl (Error ''useSlotContext must be used within a SlotProvider'')
   \<and> Slot_update None h name children w
       = Inl (Error ''useSlotContext must be used within a SlotProvider'')
   \<and> TemplateSlot None fns name d
       = Inl (Error ''useSlotContext must be used within a SlotProvider'')"
  by (simp add: useSlotContext_def Slot_mount_def Slot_update_def TemplateSlot_def)

end
